theory Spec2Isabelle
  imports Complex_Main "HOL-Library.Log_Nat"
begin

section \<open>Trace Bank: risk aggregation, policy decision, counterfactual explanation\<close>

text \<open>
  A shallow embedding of \<^verbatim>\<open>backend/decision_engine.py\<close>,
  \<^verbatim>\<open>2/backend/policy_engine.py\<close> and \<^verbatim>\<open>2/backend/counterfactual.py\<close>.

  The arithmetic of \<^verbatim>\<open>calculate_final_risk\<close> is embedded in IEEE 754 binary64, as Python
  computes it: every product and sum is rounded to the nearest double, ties to even, and
  \<^verbatim>\<open>round\<close> returns the double nearest to the rounded decimal. Elsewhere (scores
  compared with thresholds, category risks, amounts) numbers are embedded as \<open>real\<close>:
  comparisons, \<open>min\<close> and \<open>max\<close> are exact on floats as they are on reals, while
  \<open>+\<close>, \<open>*\<close> and \<open>/\<close> are taken there without the binary rounding of IEEE doubles.
  Module-level mutable state is a record that is passed in and returned updated.
  Python strings are \<open>string\<close>; the action names stay the string literals of the source.
  An exception is a value of \<open>py_error\<close>, returned on the left of a sum.
\<close>

datatype py_error = KeyError string | ZeroDivisionError | OverflowError

subsection \<open>\<^verbatim>\<open>2/backend/policy_engine.py\<close>\<close>

text \<open>The module-level dict \<^verbatim>\<open>policy\<close> with its three keys.\<close>

record policy =
  low_threshold :: real
  review_threshold :: real
  block_threshold :: real

text \<open>The dict literal the module starts with: 30, 60, 85.\<close>

definition policy_initial :: policy where
  "policy_initial = \<lparr>low_threshold = 30, review_threshold = 60, block_threshold = 85\<rparr>"

text \<open>
  \<^verbatim>\<open>update_policy(low, review, block)\<close>: three unconditional stores into the dict;
  the function has no test, no raise and no return value.
\<close>

definition update_policy :: "policy \<Rightarrow> real \<Rightarrow> real \<Rightarrow> real \<Rightarrow> policy" where
  "update_policy p low review block =
     ((p\<lparr>low_threshold := low\<rparr>)\<lparr>review_threshold := review\<rparr>)\<lparr>block_threshold := block\<rparr>"

text \<open>\<^verbatim>\<open>decide_action(risk_score)\<close>: the if/elif chain, in the source's order.\<close>

definition decide_action :: "policy \<Rightarrow> real \<Rightarrow> string" where
  "decide_action p risk_score =
     (if risk_score \<ge> block_threshold p then ''CRITICAL_FRAUD''
      else if risk_score \<ge> review_threshold p then ''BLOCK''
      else if risk_score \<ge> low_threshold p then ''REVIEW''
      else ''APPROVED'')"

text \<open>
  The severity order on the four action names, APPROVED < REVIEW < BLOCK < CRITICAL_FRAUD,
  as a rank. It is not part of the source; monotonicity is stated with it.
\<close>

definition severity :: "string \<Rightarrow> nat" where
  "severity a =
     (if a = ''CRITICAL_FRAUD'' then 3
      else if a = ''BLOCK'' then 2
      else if a = ''REVIEW'' then 1
      else 0)"

subsection \<open>\<^verbatim>\<open>backend/decision_engine.py\<close>\<close>

text \<open>The two module globals.\<close>

record thresholds =
  BLOCK_THRESHOLD :: real
  REVIEW_THRESHOLD :: real

definition thresholds_initial :: thresholds where
  "thresholds_initial = \<lparr>BLOCK_THRESHOLD = 80, REVIEW_THRESHOLD = 50\<rparr>"

text \<open>
  \<^verbatim>\<open>update_policy(block_threshold=None, review_threshold=None)\<close> of this module
  (named \<open>de_update_policy\<close> here, the other module owning the plain name): each global is
  overwritten when its argument (\<open>block_arg\<close>, \<open>review_arg\<close> for the parameters
  \<^verbatim>\<open>block_threshold\<close>, \<^verbatim>\<open>review_threshold\<close>) is not \<^verbatim>\<open>None\<close>. The dict it returns holds the two
  globals after the update, which is the state returned here.
\<close>

definition de_update_policy :: "thresholds \<Rightarrow> real option \<Rightarrow> real option \<Rightarrow> thresholds" where
  "de_update_policy g block_arg review_arg =
     (let g1 = (case block_arg of None \<Rightarrow> g | Some b \<Rightarrow> g\<lparr>BLOCK_THRESHOLD := b\<rparr>);
          g2 = (case review_arg of None \<Rightarrow> g1 | Some r \<Rightarrow> g1\<lparr>REVIEW_THRESHOLD := r\<rparr>)
      in g2)"

text \<open>\<^verbatim>\<open>make_decision(score)\<close> returns the pair (action, message).\<close>

definition make_decision :: "thresholds \<Rightarrow> real \<Rightarrow> string \<times> string" where
  "make_decision g score =
     (if score \<ge> BLOCK_THRESHOLD g then (''BLOCK'', ''High risk transaction'')
      else if score \<ge> REVIEW_THRESHOLD g then (''REVIEW'', ''Needs manual review'')
      else if score \<ge> 90 then (''FRAUD'', ''Fraud pattern detected'')
      else (''APPROVED'', ''Low risk transaction''))"

text \<open>
  A Python float is an IEEE 754 binary64 value: a finite rational, an infinity or NaN. The
  sign of a zero is not kept (\<^verbatim>\<open>-0.0 == 0.0\<close>). A Python number is an \<^verbatim>\<open>int\<close>
  or a \<^verbatim>\<open>float\<close>.
\<close>

datatype double = Finite rat | PosInf | NegInf | NaN

datatype pynum = PyInt int | PyFloat double

text \<open>The nearest integer, a tie going to the even neighbour.\<close>

definition round_half_even :: "rat \<Rightarrow> int" where
  "round_half_even x =
     (let f = \<lfloor>x\<rfloor>; d = x - of_int f
      in if d < 1 / 2 then f
         else if d > 1 / 2 then f + 1
         else if even f then f else f + 1)"

text \<open>
  Rounding a rational to binary64. \<open>binade x\<close> is the exponent \<open>e\<close> with
  \<open>2 ^ e \<le> \<bar>x\<bar> < 2 ^ (e + 1)\<close>; the doubles of that binade are the multiples of
  \<open>2 ^ (e - 52)\<close>, and below \<open>2 ^ -1022\<close> (subnormal numbers) the multiples of
  \<open>2 ^ -1074\<close>. \<open>nearest x\<close> is the multiple nearest to \<open>x\<close>, a tie going to the even
  significand; \<open>fl x\<close> is the double it stands for, an infinity from \<open>2 ^ 1024\<close> on.
\<close>

definition binade :: "rat \<Rightarrow> int" where
  "binade x =
     (case quotient_of \<bar>x\<bar> of
        (p, q) \<Rightarrow>
          let d = bitlen p - bitlen q
          in if 2 powi d \<le> \<bar>x\<bar> then d else d - 1)"

definition ulp :: "rat \<Rightarrow> rat" where
  "ulp x = 2 powi (max (binade x) (- 1022) - 52)"

definition nearest :: "rat \<Rightarrow> rat" where
  "nearest x = (if x = 0 then 0 else of_int (round_half_even (x / ulp x)) * ulp x)"

definition fl :: "rat \<Rightarrow> double" where
  "fl x =
     (let r = nearest x
      in if 2 powi 1024 \<le> \<bar>r\<bar> then (if 0 < r then PosInf else NegInf) else Finite r)"

text \<open>
  Multiplication and addition of doubles: the exact result rounded by \<open>fl\<close>, and the
  IEEE rules for infinities and NaN.
\<close>

definition sign_of :: "double \<Rightarrow> int" where
  "sign_of d =
     (case d of Finite a \<Rightarrow> (if a < 0 then - 1 else if a = 0 then 0 else 1)
      | PosInf \<Rightarrow> 1 | NegInf \<Rightarrow> - 1 | NaN \<Rightarrow> 0)"

definition fmul :: "double \<Rightarrow> double \<Rightarrow> double" where
  "fmul x y =
     (if x = NaN \<or> y = NaN then NaN
      else case (x, y) of
        (Finite a, Finite b) \<Rightarrow> fl (a * b)
      | _ \<Rightarrow>
          let s = sign_of x * sign_of y
          in if s = 0 then NaN else if 0 < s then PosInf else NegInf)"

definition fadd :: "double \<Rightarrow> double \<Rightarrow> double" where
  "fadd x y =
     (if x = NaN \<or> y = NaN then NaN
      else case (x, y) of
        (Finite a, Finite b) \<Rightarrow> fl (a + b)
      | (Finite a, _) \<Rightarrow> y
      | (_, Finite b) \<Rightarrow> x
      | _ \<Rightarrow> if x = y then x else NaN)"

text \<open>
  The operand conversion of \<^verbatim>\<open>float * int\<close>: an \<^verbatim>\<open>int\<close> is rounded to the nearest
  double, and raises \<^verbatim>\<open>OverflowError\<close> when that is beyond the largest double.
\<close>

definition as_double :: "pynum \<Rightarrow> py_error + double" where
  "as_double n =
     (case n of
        PyFloat d \<Rightarrow> Inr d
      | PyInt i \<Rightarrow> (case fl (of_int i) of Finite r \<Rightarrow> Inr (Finite r) | _ \<Rightarrow> Inl OverflowError))"

text \<open>
  \<^verbatim>\<open>round(x, ndigits)\<close> on a float, for \<^verbatim>\<open>ndigits\<close> \<open>\<ge> 0\<close>: an infinity or NaN is
  returned as it is, and so is \<open>x\<close> when \<^verbatim>\<open>ndigits\<close> exceeds 308; otherwise the exact value
  of \<open>x\<close> is rounded half-even to \<^verbatim>\<open>ndigits\<close> decimals and the result is the double
  nearest to that decimal (\<^verbatim>\<open>OverflowError\<close> when there is none). This is CPython's
  correctly rounded \<^verbatim>\<open>float.__round__\<close>, which works on the decimal expansion of \<open>x\<close>
  and not by multiplying and dividing doubles.
\<close>

definition py_round :: "double \<Rightarrow> nat \<Rightarrow> py_error + double" where
  "py_round x ndigits =
     (case x of
        Finite a \<Rightarrow>
          if ndigits > 308 then Inr x
          else (case fl (of_int (round_half_even (a * 10 ^ ndigits)) / 10 ^ ndigits) of
                  Finite r \<Rightarrow> Inr (Finite r)
                | _ \<Rightarrow> Inl OverflowError)
      | _ \<Rightarrow> Inr x)"

text \<open>
  \<^verbatim>\<open>calculate_final_risk\<close>: the literals \<^verbatim>\<open>0.4\<close> and \<^verbatim>\<open>0.3\<close> are the doubles
  \<open>fl (4 / 10)\<close> and \<open>fl (3 / 10)\<close>; the sum is evaluated from the left.
\<close>

definition calculate_final_risk :: "pynum \<Rightarrow> pynum \<Rightarrow> pynum \<Rightarrow> py_error + double" where
  "calculate_final_risk txn_risk behavioural_risk fraud_ring_risk =
     (case as_double txn_risk of
        Inl e \<Rightarrow> Inl e
      | Inr t \<Rightarrow>
          (case as_double behavioural_risk of
             Inl e \<Rightarrow> Inl e
           | Inr b \<Rightarrow>
               (case as_double fraud_ring_risk of
                  Inl e \<Rightarrow> Inl e
                | Inr f \<Rightarrow>
                    py_round
                      (fadd (fadd (fmul (fl (4 / 10)) t) (fmul (fl (3 / 10)) b))
                         (fmul (fl (3 / 10)) f))
                      2)))"

subsection \<open>\<^verbatim>\<open>2/backend/counterfactual.py\<close>\<close>

text \<open>
  The dicts the engine reads. A transaction (and each item of the user history) is a dict of
  which the engine reads five keys; a field is \<open>None\<close> when the key is absent.
  \<^verbatim>\<open>risk_breakdown\<close> is a dict from category names to numbers, kept as the list of its
  items in insertion order.
\<close>

record transaction =
  amount :: "real option"
  location :: "string option"
  vpn_detected :: "bool option"
  time_context :: "string option"
  merchant_category :: "string option"

type_synonym risk_dict = "(string \<times> real) list"

text \<open>\<^verbatim>\<open>d.get(key, default)\<close> on a field of a transaction, and on the risk dict.\<close>

definition get_or :: "'a option \<Rightarrow> 'a \<Rightarrow> 'a" where
  "get_or field dflt = (case field of None \<Rightarrow> dflt | Some v \<Rightarrow> v)"

definition dict_get :: "risk_dict \<Rightarrow> string \<Rightarrow> real \<Rightarrow> real" where
  "dict_get d key dflt = (case map_of d key of None \<Rightarrow> dflt | Some v \<Rightarrow> v)"

definition dict_values :: "risk_dict \<Rightarrow> real list" where
  "dict_values d = map snd d"

text \<open>
  The values the engine returns. A Python string built by an f-string is kept as the list
  of its parts: the literal text, and each interpolated value with its format
  specification (\<^verbatim>\<open>{x}\<close>, \<^verbatim>\<open>{x:.nf}\<close>, \<^verbatim>\<open>{x:,.nf}\<close>); the rendering of a number
  into digits is not modelled. A plain string literal is a single \<open>Lit\<close> part.
\<close>

datatype fmt = Plain | Fixed nat | Grouped nat

datatype piece = Lit string | StrVal string | NumVal fmt real | IntVal int

datatype val = Text "piece list" | IntV int | StrList "string list"

type_synonym entry = "(string \<times> val) list"

text \<open>\<^verbatim>\<open>int(x)\<close> truncates towards zero; \<^verbatim>\<open>xs[-10:]\<close> keeps the last ten items.\<close>

definition py_int :: "real \<Rightarrow> int" where
  "py_int x = (if x \<ge> 0 then \<lfloor>x\<rfloor> else \<lceil>x\<rceil>)"

definition last10 :: "'a list \<Rightarrow> 'a list" where
  "last10 xs = drop (length xs - 10) xs"

text \<open>The engine object: \<^verbatim>\<open>__init__\<close> sets its one attribute to 60.0.\<close>

record CounterfactualEngine =
  decision_threshold :: real

definition CounterfactualEngine_init :: CounterfactualEngine where
  "CounterfactualEngine_init = \<lparr>decision_threshold = 60\<rparr>"

text \<open>The module-level instance \<^verbatim>\<open>counterfactual_engine = CounterfactualEngine()\<close>.\<close>

definition counterfactual_engine :: CounterfactualEngine where
  "counterfactual_engine = CounterfactualEngine_init"

text \<open>
  \<^verbatim>\<open>_generate_decline_counterfactuals_customer\<close>: three tests in a fixed order, each
  appending one fixed dict; then the first two, or the fallback when the list is empty.
  Only \<^verbatim>\<open>risk_breakdown\<close> is read.
\<close>

definition generate_decline_counterfactuals_customer ::
  "transaction \<Rightarrow> risk_dict \<Rightarrow> transaction list \<Rightarrow> real \<Rightarrow> entry list" where
  "generate_decline_counterfactuals_customer transaction risk_breakdown user_history risk_score =
     (let suggestions = [];
          suggestions =
            (if dict_get risk_breakdown ''amount'' 0 > 5
             then suggestions @
               [[(''type'', Text [Lit ''amount'']),
                 (''title'', Text [Lit ''Reduce Transaction Amount'']),
                 (''suggestion'',
                    Text [Lit ''Try a smaller amount or split into multiple transactions''])]]
             else suggestions);
          suggestions =
            (if dict_get risk_breakdown ''location'' 0 > 10
             then suggestions @
               [[(''type'', Text [Lit ''location'']),
                 (''title'', Text [Lit ''Check Your Connection'']),
                 (''suggestion'', Text [Lit ''Turn off VPN or proxy if enabled and retry''])]]
             else suggestions);
          suggestions =
            (if dict_get risk_breakdown ''behavior'' 0 > 8
             then suggestions @
               [[(''type'', Text [Lit ''behavior'']),
                 (''title'', Text [Lit ''Use a Familiar Device'']),
                 (''suggestion'', Text [Lit ''Try again from your usual device or browser''])]]
             else suggestions)
      in if suggestions \<noteq> [] then take 2 suggestions
         else [[(''type'', Text [Lit ''contact'']),
                (''title'', Text [Lit ''Contact Support'']),
                (''suggestion'',
                   Text [Lit ''Please contact our support team for assistance''])]])"

text \<open>\<^verbatim>\<open>_find_optimal_amount(current_amount, user_history)\<close>.\<close>

definition find_optimal_amount :: "real \<Rightarrow> transaction list \<Rightarrow> real" where
  "find_optimal_amount current_amount user_history =
     (if user_history = [] \<or> length user_history = 0 then current_amount * 0.5
      else
        let amounts = map (\<lambda>t. get_or (amount t) 0)
                        (filter (\<lambda>t. get_or (amount t) 0 > 0) (last10 user_history))
        in if amounts \<noteq> []
           then (let avg_amount = sum_list amounts / real (length amounts)
                 in avg_amount * 1.5)
           else current_amount * 0.6)"

text \<open>
  The five technical rationales of the bank view, after \<^verbatim>\<open>.strip()\<close>: each f-string
  begins and ends with literal text, so stripping removes the newline and indentation
  before its first line and after its last one. \<open>a\<close> stands for
  \<^verbatim>\<open>transaction['amount']\<close>, the other names are the source's local variables.
\<close>

definition detailed_explanation ::
  "real \<Rightarrow> real \<Rightarrow> real \<Rightarrow> real \<Rightarrow> risk_dict \<Rightarrow> transaction list \<Rightarrow> piece list" where
  "detailed_explanation a optimal_amount amount_reduction avg_historical risk_breakdown user_history =
     [Lit (''AMOUNT ANOMALY DETECTION:\<newline>''
            @ ''            - Current Amount: ''),
          NumVal (Grouped 0) a,
          Lit ('' INR\<newline>''
            @ ''            - Historical Average: ''),
          NumVal (Grouped 0) avg_historical,
          Lit '' INR ('',
          NumVal (Fixed 2) (a / max avg_historical 1),
          Lit (''x baseline)\<newline>''
            @ ''            - 95th Percentile Threshold: ''),
          NumVal (Grouped 0) optimal_amount,
          Lit ('' INR\<newline>''
            @ ''            - Deviation: ''),
          NumVal (Fixed 1) amount_reduction,
          Lit (''% above typical spending\<newline>''
            @ ''            - Risk Score Contribution: ''),
          NumVal Plain (dict_get risk_breakdown ''amount'' 0),
          Lit (''/50 points\<newline>''
            @ ''            \<newline>''
            @ ''            MODEL REASONING:\<newline>''
            @ ''            - XGBoost Regressor detects amount as primary fraud indicator\<newline>''
            @ ''            - Training data shows ''),
          NumVal (Fixed 0) amount_reduction,
          Lit ''% increase triggers fraud in '',
          NumVal Plain (max 50 (min 99 (50 + amount_reduction))),
          Lit (''% of similar cases\<newline>''
            @ ''            - Historical user baseline learning: Established from last ''),
          IntVal (int (length user_history)),
          Lit ('' transactions\<newline>''
            @ ''            - Anomaly ratio = ''),
          NumVal (Fixed 2) (a / max avg_historical 1),
          Lit (''x (threshold = 1.5x)\<newline>''
            @ ''            \<newline>''
            @ ''            WHY THIS MATTERS:\<newline>''
            @ ''            - Large transactions are fraud risk as they cause immediate customer impact\<newline>''
            @ ''            - Users typically maintain consistent spending patterns\<newline>''
            @ ''            - Sudden large purchases often indicate account compromise or fraud ring activity\<newline>''
            @ ''            - Amount-based anomaly has 94% true positive rate in fraud detection'')]"

definition detailed_location_explanation :: "transaction \<Rightarrow> risk_dict \<Rightarrow> piece list" where
  "detailed_location_explanation transaction risk_breakdown =
     [Lit (''VPN/GEOLOCATION ANOMALY DETECTION:\<newline>''
            @ ''            - Device Location: ''),
          StrVal (get_or (location transaction) ''Unknown''),
          Lit (''\<newline>''
            @ ''            - GPS Match with History: 34% (threshold: 70%)\<newline>''
            @ ''            - VPN/Proxy Detection: XGBoost model score = 0.72/1.0\<newline>''
            @ ''            - Risk Score Contribution: ''),
          NumVal Plain (dict_get risk_breakdown ''location'' 0),
          Lit (''/25 points\<newline>''
            @ ''            \<newline>''
            @ ''            MODEL REASONING:\<newline>''
            @ ''            - XGBoost VPN Detection Model trained on 50,000+ legitimate vs VPN transactions\<newline>''
            @ ''            - Detection features: IP geolocation variance, DNS leaks, MTU size anomalies, TTL patterns\<newline>''
            @ ''            - VPN transactions show 87% higher fraud correlation than normal transactions\<newline>''
            @ ''            - Device has 0 previous transactions from this location\<newline>''
            @ ''            \<newline>''
            @ ''            FRAUD PATTERN ANALYSIS:\<newline>''
            @ ''            - VPN usage indicates either privacy concern (legitimate) or location spoofing (fraud)\<newline>''
            @ ''            - Fraud rings commonly use VPN to appear in legitimate user locations\<newline>''
            @ ''            - 78% of fraud ring transactions detected via VPN inconsistency\<newline>''
            @ ''            - Location variance + device mismatch = 0.89 fraud probability\<newline>''
            @ ''            \<newline>''
            @ ''            WHY THIS MATTERS:\<newline>''
            @ ''            - Fraudsters use VPNs to obscure their true location\<newline>''
            @ ''            - Legitimate users rarely change location without notice\<newline>''
            @ ''            - Combined location + behavior signals are highly predictive of compromise'')]"

definition detailed_behavior_explanation ::
  "transaction \<Rightarrow> risk_dict \<Rightarrow> real \<Rightarrow> piece list" where
  "detailed_behavior_explanation transaction risk_breakdown behavior_score =
     [Lit (''BEHAVIORAL ANOMALY DETECTION:\<newline>''
            @ ''            - Isolation Forest Anomaly Score: ''),
          NumVal (Fixed 2) (min 0.99 (behavior_score / 10)),
          Lit (''/1.0\<newline>''
            @ ''            - Deviation from Historical Pattern: ''),
          NumVal (Fixed 0) (behavior_score * 10),
          Lit (''%\<newline>''
            @ ''            - Risk Score Contribution: ''),
          NumVal Plain (dict_get risk_breakdown ''behavior'' 0),
          Lit (''/15 points\<newline>''
            @ ''            - Time Context: ''),
          StrVal (get_or (time_context transaction) ''NORMAL''),
          Lit (''\<newline>''
            @ ''            \<newline>''
            @ ''            MODEL REASONING:\<newline>''
            @ ''            - Isolation Forest trained on 100,000+ user behavior profiles\<newline>''
            @ ''            - Features: transaction frequency, merchant patterns, time-of-day distribution, device behavior\<newline>''
            @ ''            - Current behavior distance from baseline: ''),
          NumVal (Fixed 2) (min 0.99 (behavior_score / 10)),
          Lit ('' (threshold: 0.5)\<newline>''
            @ ''            - User typically transacts in 3-4 merchant categories; current category is novel\<newline>''
            @ ''            \<newline>''
            @ ''            PATTERN ANALYSIS:\<newline>''
            @ ''            - Normal users have consistent transaction patterns within days/weeks\<newline>''
            @ ''            - Sudden behavior change = ''),
          NumVal (Fixed 0) (behavior_score * 10),
          Lit (''% probability of account compromise\<newline>''
            @ ''            - Fraudsters typically test account with out-of-pattern transactions\<newline>''
            @ ''            - Pattern matching detected ''),
          NumVal (Fixed 0) (90 - behavior_score * 5),
          Lit (''% confidence of anomaly\<newline>''
            @ ''            \<newline>''
            @ ''            WHY THIS MATTERS:\<newline>''
            @ ''            - Behavioral patterns are unique to each user (like fingerprints)\<newline>''
            @ ''            - Fraud typically exhibits behavior completely different from baseline\<newline>''
            @ ''            - Legitimate users rarely break their established patterns suddenly\<newline>''
            @ ''            - Pattern learning helps detect account takeover before major damage'')]"

definition detailed_merchant_explanation ::
  "transaction \<Rightarrow> risk_dict \<Rightarrow> transaction list \<Rightarrow> piece list" where
  "detailed_merchant_explanation transaction risk_breakdown user_history =
     [Lit (''MERCHANT CATEGORY RISK DETECTION:\<newline>''
            @ ''            - Current Merchant Category: ''),
          StrVal (get_or (merchant_category transaction) ''unknown''),
          Lit (''\<newline>''
            @ ''            - Risk Weight: ''),
          NumVal Plain (dict_get risk_breakdown ''merchant'' 0),
          Lit (''/15 points\<newline>''
            @ ''            - Historical Category Match: 0% (user has no prior transactions in this category)\<newline>''
            @ ''            - Fraud Prevalence in Category: ''),
          NumVal (Fixed 1) (dict_get risk_breakdown ''merchant'' 0 * 15),
          Lit (''%\<newline>''
            @ ''            \<newline>''
            @ ''            MODEL REASONING:\<newline>''
            @ ''            - Merchant categories have different fraud rates (gambling: 15%, retail: 2%)\<newline>''
            @ ''            - XGBoost merchant classifier trained on 1M+ transaction patterns\<newline>''
            @ ''            - User preference learning: Established from ''),
          IntVal (int (length user_history)),
          Lit ('' historical transactions\<newline>''
            @ ''            - Novel category + high-risk category = elevated fraud probability\<newline>''
            @ ''            \<newline>''
            @ ''            FRAUD PATTERN ANALYSIS:\<newline>''
            @ ''            - Gambling & cryptocurrency merchants have 8-10x higher fraud rates\<newline>''
            @ ''            - Fraudsters often test stolen cards on high-margin merchants first\<newline>''
            @ ''            - Legitimate users rarely jump to high-risk categories suddenly\<newline>''
            @ ''            - Category anomaly combined with other signals = ''),
          NumVal (Fixed 0) (88 + dict_get risk_breakdown ''merchant'' 0 * 2),
          Lit (''% fraud confidence\<newline>''
            @ ''            \<newline>''
            @ ''            WHY THIS MATTERS:\<newline>''
            @ ''            - Merchant type reveals user intent and risk profile\<newline>''
            @ ''            - High-risk merchants (gambling, adult sites) are fraud hotspots\<newline>''
            @ ''            - Sudden category switch indicates either account compromise or testing\<newline>''
            @ ''            - Merchant pattern is strong predictor of fraudster identity'')]"

definition detailed_velocity_explanation :: "risk_dict \<Rightarrow> piece list" where
  "detailed_velocity_explanation risk_breakdown =
     [Lit (''TRANSACTION VELOCITY SPIKE DETECTION:\<newline>''
            @ ''            - Transactions in Last Hour: ''),
          IntVal (py_int (dict_get risk_breakdown ''velocity'' 0 * 2)),
          Lit (''\<newline>''
            @ ''            - User's Average Hourly Velocity: ''),
          IntVal (py_int (dict_get risk_breakdown ''velocity'' 0)),
          Lit (''\<newline>''
            @ ''            - Spike Magnitude: ''),
          NumVal (Fixed 0) (dict_get risk_breakdown ''velocity'' 0 * 30),
          Lit (''% above baseline\<newline>''
            @ ''            - Risk Score Contribution: ''),
          NumVal Plain (dict_get risk_breakdown ''velocity'' 0),
          Lit (''/10 points\<newline>''
            @ ''            \<newline>''
            @ ''            MODEL REASONING:\<newline>''
            @ ''            - Velocity scoring based on user's historical transaction frequency\<newline>''
            @ ''            - XGBoost velocity model detects fraud testing patterns (score: 0.81)\<newline>''
            @ ''            - Fraudsters typically execute multiple rapid transactions to test card validity\<newline>''
            @ ''            - Legitimate users maintain steady, predictable transaction rhythm\<newline>''
            @ ''            \<newline>''
            @ ''            FRAUD PATTERN ANALYSIS:\<newline>''
            @ ''            - Fraud rings execute 5-10 test transactions within minutes\<newline>''
            @ ''            - Each failed transaction gives fraudster feedback on card status\<newline>''
            @ ''            - Legitimate users rarely spike transactions suddenly\<newline>''
            @ ''            - Velocity spike + amount anomaly = 0.91 fraud probability\<newline>''
            @ ''            \<newline>''
            @ ''            WHY THIS MATTERS:\<newline>''
            @ ''            - Transaction frequency reveals usage pattern uniqueness\<newline>''
            @ ''            - Sudden velocity change indicates either automated fraud or account compromise\<newline>''
            @ ''            - Card testing is primary early-stage fraud indicator\<newline>''
            @ ''            - Velocity rules stop 42% of fraud attempts before approval'')]"

text \<open>
  The body of each of the five \<^verbatim>\<open>if\<close> blocks of
  \<^verbatim>\<open>_generate_decline_counterfactuals_bank\<close>: the dict that the block appends. The
  amount block raises \<^verbatim>\<open>KeyError\<close> when the transaction has no amount (at the call of
  \<^verbatim>\<open>_find_optimal_amount\<close>) and \<^verbatim>\<open>ZeroDivisionError\<close> when the amount is 0 (at
  \<^verbatim>\<open>amount_reduction\<close>); the other blocks raise nothing.
\<close>

definition amount_counterfactual ::
  "transaction \<Rightarrow> risk_dict \<Rightarrow> transaction list \<Rightarrow> real \<Rightarrow> py_error + entry" where
  "amount_counterfactual transaction risk_breakdown user_history risk_score =
     (case amount transaction of
        None \<Rightarrow> Inl (KeyError ''amount'')
      | Some a \<Rightarrow>
          let optimal_amount = find_optimal_amount a user_history
          in if a = 0 then Inl ZeroDivisionError
             else
               let amount_reduction = ((a - optimal_amount) / a) * 100;
                   avg_historical =
                     sum_list (map (\<lambda>t. get_or (amount t) 0) (last10 user_history))
                       / real (max 1 (length (last10 user_history)))
               in Inr
                 [(''type'', Text [Lit ''amount'']),
                  (''title'', Text [Lit ''High-Value Transaction Detected'']),
                  (''explanation'', Text (detailed_explanation a optimal_amount amount_reduction avg_historical
                                    risk_breakdown user_history)),
                  (''current'', Text
                    [Lit ''Amount: '',
                     NumVal (Grouped 0) a,
                     Lit '' INR | Risk Factor: '',
                     NumVal (Fixed 1) (dict_get risk_breakdown ''amount'' 0),
                     Lit '' points | Anomaly: '',
                     NumVal (Fixed 1) amount_reduction,
                     Lit ''% above average'']),
                  (''suggested'', Text
                    [Lit ''Reduce to '',
                     NumVal (Grouped 0) optimal_amount,
                     Lit '' INR (within 95th percentile) OR split into multiple smaller transactions of '',
                     NumVal (Grouped 0) (optimal_amount / 2),
                     Lit '' INR each'']),
                  (''impact'', Text
                    [Lit ''Reduces total risk by '',
                     NumVal (Fixed 1) (dict_get risk_breakdown ''amount'' 0 * 0.7),
                     Lit '' points (from '',
                     NumVal (Fixed 1) risk_score,
                     Lit '' to '',
                     NumVal (Fixed 1) (max 0 (risk_score - dict_get risk_breakdown ''amount'' 0 * 0.7)),
                     Lit '')'']),
                  (''confidence'', IntV 95)])"

definition location_counterfactual :: "transaction \<Rightarrow> risk_dict \<Rightarrow> real \<Rightarrow> entry" where
  "location_counterfactual transaction risk_breakdown risk_score =
     [(''type'', Text [Lit ''location'']),
      (''title'', Text [Lit ''VPN/Proxy Detection - Geolocation Risk'']),
      (''explanation'', Text (detailed_location_explanation transaction risk_breakdown)),
      (''current'', Text
        [Lit ''Connection Type: '',
         StrVal (if get_or (vpn_detected transaction) False then ''VPN Detected'' else ''Normal''),
         Lit '' | Location Variance: High | Device History Match: Low (34%)'']),
      (''suggested'', Text
        [Lit ''Disable VPN/Proxy and retry from typical location OR verify device identity via SMS/email authentication'']),
      (''impact'', Text
        [Lit ''Reduces location risk by '',
         NumVal (Fixed 1) (dict_get risk_breakdown ''location'' 0 * 0.8),
         Lit '' points (from '',
         NumVal (Fixed 1) risk_score,
         Lit '' to '',
         NumVal (Fixed 1) (max 0 (risk_score - dict_get risk_breakdown ''location'' 0 * 0.8)),
         Lit '')'']),
      (''confidence'', IntV 92)]"

definition behavior_counterfactual :: "transaction \<Rightarrow> risk_dict \<Rightarrow> real \<Rightarrow> entry" where
  "behavior_counterfactual transaction risk_breakdown risk_score =
     (let behavior_score = dict_get risk_breakdown ''behavior'' 0
      in
     [(''type'', Text [Lit ''behavior'']),
      (''title'', Text [Lit ''Behavioral Anomaly Detected'']),
      (''explanation'', Text (detailed_behavior_explanation transaction risk_breakdown behavior_score)),
      (''current'', Text
        [Lit ''Behavior Pattern Deviation: '',
         NumVal (Fixed 0) (behavior_score * 10),
         Lit ''% | Anomaly Score: '',
         NumVal (Fixed 2) (min 0.99 (behavior_score / 10)),
         Lit '' | Category Risk: '',
         NumVal (Fixed 1) (dict_get risk_breakdown ''merchant'' 0),
         Lit '' points'']),
      (''suggested'', Text
        [Lit ''Use device from typical location during normal hours OR increase transaction frequency over next week to establish new baseline pattern'']),
      (''impact'', Text
        [Lit ''Reduces behavior risk by '',
         NumVal (Fixed 1) (behavior_score * 0.6),
         Lit '' points (from '',
         NumVal (Fixed 1) risk_score,
         Lit '' to '',
         NumVal (Fixed 1) (max 0 (risk_score - behavior_score * 0.6)),
         Lit '')'']),
      (''confidence'', IntV 85)])"

definition merchant_counterfactual ::
  "transaction \<Rightarrow> risk_dict \<Rightarrow> transaction list \<Rightarrow> real \<Rightarrow> entry" where
  "merchant_counterfactual transaction risk_breakdown user_history risk_score =
     [(''type'', Text [Lit ''merchant'']),
      (''title'', Text [Lit ''High-Risk Merchant Category'']),
      (''explanation'', Text (detailed_merchant_explanation transaction risk_breakdown user_history)),
      (''current'', Text
        [Lit ''Merchant Category: '',
         StrVal (get_or (merchant_category transaction) ''unknown''),
         Lit '' (High Risk) | Category Risk Component: '',
         NumVal (Fixed 1) (dict_get risk_breakdown ''merchant'' 0),
         Lit '' points | Historical Category Match: 0%'']),
      (''suggested'', Text
        [Lit ''Choose from typical merchant categories: Retail, Groceries, Restaurants OR perform additional identity verification'']),
      (''impact'', Text
        [Lit ''Reduces merchant risk by '',
         NumVal (Fixed 1) (dict_get risk_breakdown ''merchant'' 0 * 0.6),
         Lit '' points (from '',
         NumVal (Fixed 1) risk_score,
         Lit '' to '',
         NumVal (Fixed 1) (max 0 (risk_score - dict_get risk_breakdown ''merchant'' 0 * 0.6)),
         Lit '')'']),
      (''confidence'', IntV 88)]"

definition velocity_counterfactual :: "risk_dict \<Rightarrow> real \<Rightarrow> entry" where
  "velocity_counterfactual risk_breakdown risk_score =
     [(''type'', Text [Lit ''velocity'']),
      (''title'', Text [Lit ''Transaction Velocity Spike'']),
      (''explanation'', Text (detailed_velocity_explanation risk_breakdown)),
      (''current'', Text
        [Lit ''Velocity Score: '',
         NumVal (Fixed 1) (dict_get risk_breakdown ''velocity'' 0),
         Lit ''/10 | Recent Transactions: '',
         IntVal (py_int (dict_get risk_breakdown ''velocity'' 0 * 2)),
         Lit '' in last hour | Baseline: '',
         IntVal (py_int (dict_get risk_breakdown ''velocity'' 0)),
         Lit '' per hour'']),
      (''suggested'', Text
        [Lit ''Spread transactions over 2-3 hours OR wait 30 minutes before retry to reduce velocity flag'']),
      (''impact'', Text
        [Lit ''Reduces velocity risk by '',
         NumVal (Fixed 1) (dict_get risk_breakdown ''velocity'' 0 * 0.5),
         Lit '' points (from '',
         NumVal (Fixed 1) risk_score,
         Lit '' to '',
         NumVal (Fixed 1) (max 0 (risk_score - dict_get risk_breakdown ''velocity'' 0 * 0.5)),
         Lit '')'']),
      (''confidence'', IntV 79)]"

text \<open>
  \<^verbatim>\<open>_generate_decline_counterfactuals_bank\<close>: the five blocks in the source's order,
  then at most the first four entries. (\<^verbatim>\<open>sorted_risks\<close> is computed and never used.)
\<close>

definition generate_decline_counterfactuals_bank ::
  "transaction \<Rightarrow> risk_dict \<Rightarrow> transaction list \<Rightarrow> real \<Rightarrow> py_error + entry list" where
  "generate_decline_counterfactuals_bank transaction risk_breakdown user_history risk_score =
     (let counterfactuals = []
      in case (if dict_get risk_breakdown ''amount'' 0 > 5
               then (case amount_counterfactual transaction risk_breakdown user_history risk_score of
                       Inl e \<Rightarrow> Inl e
                     | Inr c \<Rightarrow> Inr (counterfactuals @ [c]))
               else Inr counterfactuals) of
           Inl e \<Rightarrow> Inl e
         | Inr counterfactuals \<Rightarrow>
             let counterfactuals =
                   (if dict_get risk_breakdown ''location'' 0 > 5
                    then counterfactuals @
                      [location_counterfactual transaction risk_breakdown risk_score]
                    else counterfactuals);
                 counterfactuals =
                   (if dict_get risk_breakdown ''behavior'' 0 > 5
                    then counterfactuals @
                      [behavior_counterfactual transaction risk_breakdown risk_score]
                    else counterfactuals);
                 counterfactuals =
                   (if dict_get risk_breakdown ''merchant'' 0 > 5
                    then counterfactuals @
                      [merchant_counterfactual transaction risk_breakdown user_history risk_score]
                    else counterfactuals);
                 counterfactuals =
                   (if dict_get risk_breakdown ''velocity'' 0 > 3
                    then counterfactuals @ [velocity_counterfactual risk_breakdown risk_score]
                    else counterfactuals)
             in Inr (if counterfactuals \<noteq> [] then take 4 counterfactuals else []))"

text \<open>The two approval explanations.\<close>

definition generate_approval_explanations_customer ::
  "transaction \<Rightarrow> risk_dict \<Rightarrow> real \<Rightarrow> entry list" where
  "generate_approval_explanations_customer transaction risk_breakdown risk_score =
     [[(''type'', Text [Lit ''approval'']),
       (''title'', Text [Lit ''Transaction Approved'']),
       (''message'', Text [Lit ''Your transaction has been processed successfully.''])]]"

definition generate_approval_explanations_bank ::
  "transaction \<Rightarrow> risk_dict \<Rightarrow> real \<Rightarrow> entry list" where
  "generate_approval_explanations_bank transaction risk_breakdown risk_score =
     (let positive_factors = [];
          positive_factors =
            (if dict_get risk_breakdown ''amount'' 0 < 5
             then positive_factors @ [''Amount is within normal spending range'']
             else positive_factors);
          positive_factors =
            (if dict_get risk_breakdown ''location'' 0 < 5
             then positive_factors @ [''Location matches device history'']
             else positive_factors);
          positive_factors =
            (if dict_get risk_breakdown ''behavior'' 0 < 5
             then positive_factors @ [''Behavior matches typical patterns'']
             else positive_factors);
          positive_factors =
            (if dict_get risk_breakdown ''merchant'' 0 < 5
             then positive_factors @ [''Merchant is in typical categories'']
             else positive_factors);
          positive_factors =
            (if positive_factors = []
             then [''Transaction matches user profile'', ''No suspicious patterns detected'']
             else positive_factors)
      in [[(''type'', Text [Lit ''approval'']),
           (''title'', Text [Lit ''Transaction Approved'']),
           (''explanation'', Text [Lit ''Risk analysis complete'']),
           (''confidence'', Text [NumVal (Fixed 0) (100 - sum_list (dict_values risk_breakdown)), Lit ''%'']),
           (''positive_factors'', StrList positive_factors),
           (''message'', Text [Lit ''Transaction processed successfully.''])]])"

text \<open>
  \<^verbatim>\<open>generate_counterfactuals(transaction, risk_score, risk_breakdown, user_history)\<close>:
  one comparison of the score with the engine's own threshold. The customer list is built
  before the bank list; an exception of the bank view ends the call.
\<close>

definition generate_counterfactuals ::
  "CounterfactualEngine \<Rightarrow> transaction \<Rightarrow> real \<Rightarrow> risk_dict \<Rightarrow> transaction list
     \<Rightarrow> py_error + (entry list \<times> entry list)" where
  "generate_counterfactuals self transaction risk_score risk_breakdown user_history =
     (if risk_score < decision_threshold self
      then
        (let customer = generate_approval_explanations_customer transaction risk_breakdown risk_score;
             bank = generate_approval_explanations_bank transaction risk_breakdown risk_score
         in Inr (customer, bank))
      else
        (let customer = generate_decline_counterfactuals_customer
                          transaction risk_breakdown user_history risk_score
         in case generate_decline_counterfactuals_bank
                   transaction risk_breakdown user_history risk_score of
              Inl e \<Rightarrow> Inl e
            | Inr bank \<Rightarrow> Inr (customer, bank)))"



subsection \<open>Vocabulary for the properties\<close>

text \<open>
  The customer view in the words of the specification: one templated suggestion for each
  category whose risk exceeds its mention threshold (amount above 5, location above 10,
  behavior above 8), in the order amount, location, behavior, cut to two items; the single
  contact-support entry when no category qualifies.
\<close>

definition suggestion :: "string \<Rightarrow> string \<Rightarrow> string \<Rightarrow> entry" where
  "suggestion kind title advice =
     [(''type'', Text [Lit kind]), (''title'', Text [Lit title]), (''suggestion'', Text [Lit advice])]"

definition mention_table :: "(string \<times> real \<times> entry) list" where
  "mention_table =
     [(''amount'', 5,
         suggestion ''amount'' ''Reduce Transaction Amount''
           ''Try a smaller amount or split into multiple transactions''),
      (''location'', 10,
         suggestion ''location'' ''Check Your Connection''
           ''Turn off VPN or proxy if enabled and retry''),
      (''behavior'', 8,
         suggestion ''behavior'' ''Use a Familiar Device''
           ''Try again from your usual device or browser'')]"

definition contact_support :: entry where
  "contact_support =
     suggestion ''contact'' ''Contact Support'' ''Please contact our support team for assistance''"

definition customer_explanation_spec :: "risk_dict \<Rightarrow> entry list" where
  "customer_explanation_spec risk_breakdown =
     (let qualifying =
            filter (\<lambda>(category, threshold, s). dict_get risk_breakdown category 0 > threshold)
              mention_table
      in if qualifying = [] then [contact_support]
         else take 2 (map (\<lambda>(category, threshold, s). s) qualifying))"

text \<open>
  A value is number-free when it is text made of literal parts only, none of which holds a
  digit: nothing is interpolated into it.
\<close>

definition digit_free :: "string \<Rightarrow> bool" where
  "digit_free s = list_all (\<lambda>c. c \<notin> set ''0123456789'') s"

fun literal_piece :: "piece \<Rightarrow> bool" where
  "literal_piece (Lit s) = digit_free s"
| "literal_piece (StrVal s) = False"
| "literal_piece (NumVal f x) = False"
| "literal_piece (IntVal i) = False"

fun number_free :: "val \<Rightarrow> bool" where
  "number_free (Text ps) = list_all literal_piece ps"
| "number_free (IntV i) = False"
| "number_free (StrList ss) = list_all digit_free ss"

definition entry_number_free :: "entry \<Rightarrow> bool" where
  "entry_number_free e = list_all (\<lambda>(key, v). number_free v) e"

text \<open>The numbers that an entry carries: every interpolated number and every integer field.\<close>

fun piece_numbers :: "piece \<Rightarrow> real list" where
  "piece_numbers (Lit s) = []"
| "piece_numbers (StrVal s) = []"
| "piece_numbers (NumVal f x) = [x]"
| "piece_numbers (IntVal i) = [of_int i]"

fun val_numbers :: "val \<Rightarrow> real list" where
  "val_numbers (Text ps) = concat (map piece_numbers ps)"
| "val_numbers (IntV i) = [of_int i]"
| "val_numbers (StrList ss) = []"

definition entry_numbers :: "entry \<Rightarrow> real list" where
  "entry_numbers e = concat (map (\<lambda>(key, v). val_numbers v) e)"

text \<open>The category an entry is about: its \<^verbatim>\<open>'type'\<close> field.\<close>

definition entry_type :: "entry \<Rightarrow> string" where
  "entry_type e = (case map_of e ''type'' of Some (Text [Lit s]) \<Rightarrow> s | _ \<Rightarrow> [])"

text \<open>An entry carries its own category's risk when that number is among its numbers.\<close>

definition carries_own_risk :: "risk_dict \<Rightarrow> entry \<Rightarrow> bool" where
  "carries_own_risk risk_breakdown e =
     (dict_get risk_breakdown (entry_type e) 0 \<in> set (entry_numbers e))"


text \<open>
  Concrete inputs: the risk breakdown of the specification's example, one in which no
  category reaches a threshold, one in which every category exceeds its thresholds (behavior
  being the largest risk and amount the smallest of the three customer categories), and a
  transaction.
\<close>

definition breakdown_amount_only :: risk_dict where
  "breakdown_amount_only =
     [(''amount'', 10), (''location'', 0), (''behavior'', 0), (''merchant'', 0), (''velocity'', 0)]"

definition breakdown_quiet :: risk_dict where
  "breakdown_quiet =
     [(''amount'', 3), (''location'', 4), (''behavior'', 5), (''merchant'', 2), (''velocity'', 1)]"

definition breakdown_all_high :: risk_dict where
  "breakdown_all_high =
     [(''amount'', 6), (''location'', 11), (''behavior'', 14), (''merchant'', 9), (''velocity'', 6)]"

definition transaction_example :: transaction where
  "transaction_example =
     \<lparr>amount = Some 25000, location = Some ''Mumbai'', vpn_detected = Some True,
      time_context = None, merchant_category = Some ''electronics''\<rparr>"

text \<open>
  The bank explanation that the engine returns for \<open>transaction_example\<close>,
  \<open>breakdown_all_high\<close>, an empty history and a score of 70: all five categories
  qualify, the first four are kept.
\<close>

definition bank_example :: "entry list" where
  "bank_example =
     [[(''type'', Text [Lit ''amount'']),
           (''title'', Text [Lit ''High-Value Transaction Detected'']),
           (''explanation'',
              Text (detailed_explanation 25000 12500 50 0 breakdown_all_high [])),
           (''current'',
              Text [Lit ''Amount: '', NumVal (Grouped 0) 25000, Lit '' INR | Risk Factor: '',
                    NumVal (Fixed 1) 6, Lit '' points | Anomaly: '', NumVal (Fixed 1) 50,
                    Lit ''% above average'']),
           (''suggested'',
              Text [Lit ''Reduce to '', NumVal (Grouped 0) 12500,
                    Lit '' INR (within 95th percentile) OR split into multiple smaller transactions of '',
                    NumVal (Grouped 0) 6250, Lit '' INR each'']),
           (''impact'',
              Text [Lit ''Reduces total risk by '', NumVal (Fixed 1) 4.2, Lit '' points (from '',
                    NumVal (Fixed 1) 70, Lit '' to '', NumVal (Fixed 1) 65.8, Lit '')'']),
           (''confidence'', IntV 95)],
          location_counterfactual transaction_example breakdown_all_high 70,
          behavior_counterfactual transaction_example breakdown_all_high 70,
          merchant_counterfactual transaction_example breakdown_all_high [] 70]"

section \<open>Properties\<close>

subsection \<open>Helper facts: rounding to the nearest double\<close>

lemma round_half_even_bounds:
  "\<lfloor>x\<rfloor> \<le> round_half_even x \<and> round_half_even x \<le> \<lceil>x\<rceil>"
proof -
  let ?f = "\<lfloor>x\<rfloor>"
  have up: "x - of_int ?f \<noteq> 0 \<Longrightarrow> ?f + 1 \<le> \<lceil>x\<rceil>"
    by linarith
  have "x - of_int ?f \<ge> 1 / 2 \<Longrightarrow> x - of_int ?f \<noteq> 0"
    by simp
  then show ?thesis
    unfolding round_half_even_def Let_def using up
    by (auto simp: ceiling_def) linarith+
qed








lemma bitlen_powi:
  assumes "0 < m"
  shows "(2::rat) powi (bitlen m - 1) \<le> of_int m \<and> (of_int m :: rat) < 2 powi (bitlen m)"
proof -
  have b: "2 ^ nat (bitlen m - 1) \<le> m \<and> m < 2 ^ nat (bitlen m)"
    using bitlen_bounds [OF assms] .
  have pos: "1 \<le> bitlen m" using assms bitlen_eq_zero_iff [of m] bitlen_nonneg [of m] by linarith
  have "(of_int (2 ^ nat (bitlen m - 1)) :: rat) \<le> of_int m"
    using b by (simp only: of_int_le_iff)
  moreover have "(of_int m :: rat) < of_int (2 ^ nat (bitlen m))"
    using b by (simp only: of_int_less_iff)
  ultimately show ?thesis
    using pos by (simp add: power_int_nonneg_exp)
qed

lemma binade_bounds:
  assumes "x \<noteq> 0"
  shows "2 powi binade x \<le> \<bar>x\<bar> \<and> \<bar>x\<bar> < 2 powi (binade x + 1)"
proof -
  obtain p q where pq: "quotient_of \<bar>x\<bar> = (p, q)" by (cases "quotient_of \<bar>x\<bar>")
  have q: "0 < q" using quotient_of_denom_pos [OF pq] .
  have x: "\<bar>x\<bar> = of_int p / of_int q" using quotient_of_div [OF pq] .
  have "0 < \<bar>x\<bar>" using assms by simp
  then have p: "0 < p" using x q by (simp add: zero_less_divide_iff)
  let ?d = "bitlen p - bitlen q"
  have bp: "(2::rat) powi (bitlen p - 1) \<le> of_int p" "(of_int p :: rat) < 2 powi (bitlen p)"
    using bitlen_powi [OF p] by simp_all
  have bq: "(2::rat) powi (bitlen q - 1) \<le> of_int q" "(of_int q :: rat) < 2 powi (bitlen q)"
    using bitlen_powi [OF q] by simp_all
  have qpos: "(0::rat) < of_int q" using q by simp
  have ppos: "(0::rat) < of_int p" using p by simp
  have pw: "(0::rat) < 2 powi k" for k by simp
  have upper: "\<bar>x\<bar> < 2 powi (?d + 1)"
  proof -
    have "of_int p / of_int q < (2::rat) powi (bitlen p) / 2 powi (bitlen q - 1)"
      using bp(2) bq(1) qpos ppos pw by (intro frac_less) simp_all
    also have "\<dots> = 2 powi (?d + 1)"
      by (simp add: power_int_diff [symmetric] algebra_simps)
    finally show ?thesis using x by simp
  qed
  have lower: "2 powi (?d - 1) \<le> \<bar>x\<bar>"
  proof -
    have "(2::rat) powi (bitlen p - 1) / 2 powi (bitlen q) \<le> of_int p / of_int q"
      using bp(1) bq(2) qpos ppos pw by (intro frac_le) simp_all
    moreover have "(2::rat) powi (bitlen p - 1) / 2 powi (bitlen q) = 2 powi (?d - 1)"
      by (simp add: power_int_diff [symmetric] algebra_simps)
    ultimately show ?thesis using x by simp
  qed
  have b: "binade x = (if 2 powi ?d \<le> \<bar>x\<bar> then ?d else ?d - 1)"
    by (simp add: binade_def pq Let_def)
  show ?thesis
  proof (cases "2 powi ?d \<le> \<bar>x\<bar>")
    case True
    then show ?thesis using upper b by simp
  next
    case False
    then show ?thesis using lower b by simp
  qed
qed


lemma binade_ge:
  assumes "x \<noteq> 0" and "2 powi k \<le> \<bar>x\<bar>"
  shows "k \<le> binade x"
proof (rule ccontr)
  assume "\<not> k \<le> binade x"
  then have "binade x + 1 \<le> k" by simp
  then have "(2::rat) powi (binade x + 1) \<le> 2 powi k"
    by (intro power_int_increasing) simp_all
  then show False using binade_bounds [OF assms(1)] assms(2) by linarith
qed


lemma ulp_pos: "0 < ulp x"
  by (simp add: ulp_def)





lemma nearest_ge_grid:
  assumes "of_int m * ulp x \<le> x"
  shows "of_int m * ulp x \<le> nearest x"
proof (cases "x = 0")
  case True
  then show ?thesis using assms by (simp add: nearest_def)
next
  case False
  have u: "0 < ulp x" by (rule ulp_pos)
  have "of_int m \<le> x / ulp x" using assms u by (simp add: field_simps)
  then have "m \<le> \<lfloor>x / ulp x\<rfloor>" by (simp add: le_floor_iff)
  then have "m \<le> round_half_even (x / ulp x)"
    using round_half_even_bounds [of "x / ulp x"] by linarith
  then have "(of_int m :: rat) \<le> of_int (round_half_even (x / ulp x))" by simp
  then show ?thesis using False u by (simp add: nearest_def)
qed






















lemma fl_overflow:
  assumes "2 powi 1024 \<le> x"
  shows "fl x = PosInf"
proof -
  have pos: "(0::rat) < 2 powi 1024" by simp
  then have x: "0 < x" using assms by linarith
  then have nz: "x \<noteq> 0" by simp
  have k: "1024 \<le> binade x" using binade_ge [OF nz, of 1024] assms x by simp
  then have u: "ulp x = 2 powi (binade x - 52)" by (simp add: ulp_def)
  have "(2::rat) powi binade x = 2 powi (52 + (binade x - 52))" by simp
  also have "\<dots> = 2 powi 52 * 2 powi (binade x - 52)"
    by (rule power_int_add) simp
  finally have g: "(2::rat) powi binade x = of_int (2 ^ 52) * ulp x" using u by simp
  have "2 powi binade x \<le> x" using binade_bounds [OF nz] x by simp
  then have "of_int (2 ^ 52) * ulp x \<le> nearest x"
    using g nearest_ge_grid [of "2 ^ 52" x] by simp
  then have "2 powi binade x \<le> nearest x" using g by simp
  moreover have "(2::rat) powi 1024 \<le> 2 powi binade x"
    using k by (intro power_int_increasing) simp_all
  ultimately have "2 powi 1024 \<le> nearest x" by linarith
  then show ?thesis using pos by (simp add: fl_def Let_def)
qed

lemma calculate_final_risk_overflow:
  "calculate_final_risk (PyInt (10 ^ 400)) b f = Inl OverflowError"
proof -
  have "(2::rat) powi 1024 \<le> of_int (10 ^ 400)" by simp
  then have "fl (of_int (10 ^ 400)) = PosInf" by (rule fl_overflow)
  then have "as_double (PyInt (10 ^ 400)) = Inl OverflowError"
    by (simp add: as_double_def)
  then show ?thesis by (simp add: calculate_final_risk_def)
qed







subsection \<open>Risk aggregation\<close>




subsection \<open>Policy store\<close>

text \<open>
  Claim C2, as stated, fails: \<^verbatim>\<open>update_policy(40, 30, 90)\<close> on the initial policy
  (30, 60, 85) raises nothing and leaves the store at (40, 30, 90), where review < low.
  The second module's \<^verbatim>\<open>update_policy\<close> likewise stores a block threshold of 150
  and a review threshold of 200 without complaint.
\<close>

theorem update_policy_accepts_unordered:
  "update_policy policy_initial 40 30 90 =
     \<lparr>low_threshold = 40, review_threshold = 30, block_threshold = 90\<rparr>
   \<and> update_policy policy_initial 40 30 90 \<noteq> policy_initial
   \<and> de_update_policy thresholds_initial (Some 150) (Some 200) =
     \<lparr>BLOCK_THRESHOLD = 150, REVIEW_THRESHOLD = 200\<rparr>"
  by (simp add: update_policy_def policy_initial_def de_update_policy_def thresholds_initial_def)

text \<open>
  Claim C2, amended: the policy update validates nothing and never fails. For every stored
  triple and every new triple, ordered or not, inside [0, 100] or not, the store holds
  exactly the new triple afterwards; in the decision-engine module each threshold that is
  passed replaces the stored one and each omitted one is kept, whichever of the two is
  passed.
\<close>

theorem update_policy_overwrites:
  "update_policy p low review block =
     \<lparr>low_threshold = low, review_threshold = review, block_threshold = block\<rparr>
   \<and> de_update_policy g (Some b) (Some r) = \<lparr>BLOCK_THRESHOLD = b, REVIEW_THRESHOLD = r\<rparr>
   \<and> de_update_policy g (Some b) None =
       \<lparr>BLOCK_THRESHOLD = b, REVIEW_THRESHOLD = REVIEW_THRESHOLD g\<rparr>
   \<and> de_update_policy g None (Some r) =
       \<lparr>BLOCK_THRESHOLD = BLOCK_THRESHOLD g, REVIEW_THRESHOLD = r\<rparr>
   \<and> de_update_policy g None None = g"
  by (simp add: update_policy_def de_update_policy_def)

subsection \<open>Decision mapping\<close>

text \<open>
  Claim C3: for every score and every stored triple, \<^verbatim>\<open>decide_action\<close> returns
  CRITICAL_FRAUD if the score is at least block, else BLOCK if it is at least review, else
  REVIEW if it is at least low, else APPROVED. A score equal to a threshold falls into the
  bucket above it: a score equal to block is CRITICAL_FRAUD; a score equal to review is
  never REVIEW or APPROVED, and is BLOCK when review lies below block; a score equal to low
  is never APPROVED, and is REVIEW when low lies below review and block.
\<close>

theorem decide_action_cascade:
  "decide_action p r =
     (if r \<ge> block_threshold p then ''CRITICAL_FRAUD''
      else if r \<ge> review_threshold p then ''BLOCK''
      else if r \<ge> low_threshold p then ''REVIEW''
      else ''APPROVED'')
   \<and> decide_action p (block_threshold p) = ''CRITICAL_FRAUD''
   \<and> (review_threshold p < block_threshold p
        \<longrightarrow> decide_action p (review_threshold p) = ''BLOCK'')
   \<and> decide_action p (review_threshold p) \<notin> {''REVIEW'', ''APPROVED''}
   \<and> (low_threshold p < review_threshold p \<and> low_threshold p < block_threshold p
        \<longrightarrow> decide_action p (low_threshold p) = ''REVIEW'')
   \<and> decide_action p (low_threshold p) \<noteq> ''APPROVED''"
  by (simp add: decide_action_def)

theorem decide_action_cascade_witness:
  "review_threshold policy_initial < block_threshold policy_initial
   \<and> low_threshold policy_initial < review_threshold policy_initial
   \<and> low_threshold policy_initial < block_threshold policy_initial
   \<and> decide_action policy_initial 85 = ''CRITICAL_FRAUD''
   \<and> decide_action policy_initial 60 = ''BLOCK''
   \<and> decide_action policy_initial 30 = ''REVIEW''"
  using decide_action_cascade [of policy_initial 60]
  by (simp add: policy_initial_def)

text \<open>
  Claim C4: for every triple with low \<le> review \<le> block and all scores r1 \<le> r2, the
  action for r2 is at least as severe as the action for r1, in the order
  APPROVED < REVIEW < BLOCK < CRITICAL_FRAUD.
\<close>

theorem decide_action_monotonic:
  assumes "low_threshold p \<le> review_threshold p"
    and "review_threshold p \<le> block_threshold p"
    and "r1 \<le> r2"
  shows "severity (decide_action p r1) \<le> severity (decide_action p r2)"
  using assms by (simp add: decide_action_def severity_def)

theorem decide_action_monotonic_witness:
  "low_threshold policy_initial \<le> review_threshold policy_initial
   \<and> review_threshold policy_initial \<le> block_threshold policy_initial
   \<and> (45::real) \<le> 70
   \<and> severity (decide_action policy_initial 45) = 1
   \<and> severity (decide_action policy_initial 70) = 2
   \<and> severity (decide_action policy_initial 45) \<le> severity (decide_action policy_initial 70)"
  using decide_action_monotonic [of policy_initial 45 70]
  by (simp add: policy_initial_def decide_action_def severity_def)

text \<open>
  Claim C10: in the decision-engine module, whenever the review threshold or the block
  threshold is at most 90 (initially 50 and 80), \<^verbatim>\<open>make_decision\<close> never returns the
  FRAUD action for any score: a score of 90 or more is taken by one of the two earlier
  comparisons, so the action is APPROVED, REVIEW or BLOCK.
\<close>

theorem make_decision_never_fraud:
  assumes "REVIEW_THRESHOLD g \<le> 90 \<or> BLOCK_THRESHOLD g \<le> 90"
  shows "fst (make_decision g score) \<noteq> ''FRAUD''
       \<and> fst (make_decision g score) \<in> {''APPROVED'', ''REVIEW'', ''BLOCK''}"
  using assms by (auto simp: make_decision_def)

theorem make_decision_never_fraud_witness:
  "(REVIEW_THRESHOLD thresholds_initial \<le> 90 \<or> BLOCK_THRESHOLD thresholds_initial \<le> 90)
   \<and> make_decision thresholds_initial 95 = (''BLOCK'', ''High risk transaction'')
   \<and> fst (make_decision thresholds_initial 95) \<noteq> ''FRAUD''"
  using make_decision_never_fraud [of thresholds_initial 95]
  by (simp add: thresholds_initial_def make_decision_def)

subsection \<open>Helper facts about the explanations\<close>

lemma customer_is_spec:
  "generate_decline_counterfactuals_customer tx rb h rs = customer_explanation_spec rb"
  by (simp add: generate_decline_counterfactuals_customer_def customer_explanation_spec_def
      mention_table_def contact_support_def suggestion_def Let_def)

lemma contact_support_number_free: "entry_number_free contact_support"
  by (simp add: contact_support_def suggestion_def entry_number_free_def digit_free_def)

lemma mention_table_number_free:
  "list_all (\<lambda>(category, threshold, s). entry_number_free s) mention_table"
  by (simp add: mention_table_def suggestion_def entry_number_free_def digit_free_def)

lemma customer_spec_number_free: "list_all entry_number_free (customer_explanation_spec rb)"
  using mention_table_number_free contact_support_number_free
  by (simp add: customer_explanation_spec_def mention_table_def Let_def)

lemma customer_spec_length:
  "customer_explanation_spec rb \<noteq> [] \<and> length (customer_explanation_spec rb) \<le> 2"
  by (simp add: customer_explanation_spec_def Let_def)

lemma location_carries: "carries_own_risk rb (location_counterfactual tx rb rs)"
  by (simp add: carries_own_risk_def location_counterfactual_def entry_type_def
      entry_numbers_def detailed_location_explanation_def)

lemma behavior_carries: "carries_own_risk rb (behavior_counterfactual tx rb rs)"
  by (simp add: carries_own_risk_def behavior_counterfactual_def entry_type_def
      entry_numbers_def detailed_behavior_explanation_def Let_def)

lemma merchant_carries: "carries_own_risk rb (merchant_counterfactual tx rb h rs)"
  by (simp add: carries_own_risk_def merchant_counterfactual_def entry_type_def
      entry_numbers_def)

lemma velocity_carries: "carries_own_risk rb (velocity_counterfactual rb rs)"
  by (simp add: carries_own_risk_def velocity_counterfactual_def entry_type_def
      entry_numbers_def)

lemma amount_carries:
  "amount_counterfactual tx rb h rs = Inr e \<Longrightarrow> carries_own_risk rb e"
  by (auto simp: carries_own_risk_def amount_counterfactual_def entry_type_def
      entry_numbers_def Let_def split: option.splits if_splits)

lemma list_all_take: "list_all P xs \<Longrightarrow> list_all P (take n xs)"
  by (simp add: list_all_iff) (meson in_set_takeD)

lemma bank_carries:
  assumes "generate_decline_counterfactuals_bank tx rb h rs = Inr es"
  shows "list_all (carries_own_risk rb) es"
proof -
  note c = location_carries [of rb tx rs] behavior_carries [of rb tx rs]
    merchant_carries [of rb tx h rs] velocity_carries [of rb rs]
  show ?thesis
  proof (cases "dict_get rb ''amount'' 0 > 5")
    case True
    then obtain e where e: "amount_counterfactual tx rb h rs = Inr e"
      using assms by (auto simp: generate_decline_counterfactuals_bank_def split: sum.splits)
    have "carries_own_risk rb e" using e by (rule amount_carries)
    then show ?thesis
      using assms True e c
      by (auto simp: generate_decline_counterfactuals_bank_def Let_def intro!: list_all_take)
  next
    case False
    then show ?thesis
      using assms c
      by (auto simp: generate_decline_counterfactuals_bank_def Let_def intro!: list_all_take)
  qed
qed

lemma bank_empty_iff:
  assumes "generate_decline_counterfactuals_bank tx rb h rs = Inr es"
  shows "es = [] \<longleftrightarrow>
     (dict_get rb ''amount'' 0 \<le> 5 \<and> dict_get rb ''location'' 0 \<le> 5
      \<and> dict_get rb ''behavior'' 0 \<le> 5 \<and> dict_get rb ''merchant'' 0 \<le> 5
      \<and> dict_get rb ''velocity'' 0 \<le> 3)"
  using assms
  by (auto simp: generate_decline_counterfactuals_bank_def Let_def split: sum.splits if_splits)

lemma bank_all_high:
  "generate_decline_counterfactuals_bank transaction_example breakdown_all_high [] 70 =
     Inr bank_example"
  by (simp add: bank_example_def generate_decline_counterfactuals_bank_def
      amount_counterfactual_def find_optimal_amount_def last10_def transaction_example_def
      breakdown_all_high_def dict_get_def Let_def)

subsection \<open>Counterfactual explanations\<close>

text \<open>
  Claim C5, as stated, fails: the branch point is not the policy store's low threshold.
  Under the initial policy (low = 30) a risk score of 45 is at least low, and
  \<^verbatim>\<open>decide_action\<close> answers REVIEW, yet \<^verbatim>\<open>generate_counterfactuals\<close> takes the
  approval path: the customer is told the transaction was approved, not the amount
  suggestion that the decline path gives for the same breakdown.
\<close>

theorem generate_counterfactuals_not_policy_low:
  "low_threshold policy_initial \<le> 45
   \<and> decide_action policy_initial 45 = ''REVIEW''
   \<and> generate_counterfactuals counterfactual_engine transaction_example 45 breakdown_amount_only [] =
       Inr (generate_approval_explanations_customer transaction_example breakdown_amount_only 45,
            generate_approval_explanations_bank transaction_example breakdown_amount_only 45)
   \<and> generate_approval_explanations_customer transaction_example breakdown_amount_only 45 =
       [[(''type'', Text [Lit ''approval'']),
         (''title'', Text [Lit ''Transaction Approved'']),
         (''message'', Text [Lit ''Your transaction has been processed successfully.''])]]
   \<and> generate_approval_explanations_customer transaction_example breakdown_amount_only 45 \<noteq>
       generate_decline_counterfactuals_customer transaction_example breakdown_amount_only [] 45"
  by (simp add: policy_initial_def decide_action_def generate_counterfactuals_def
      counterfactual_engine_def CounterfactualEngine_init_def
      generate_approval_explanations_customer_def generate_decline_counterfactuals_customer_def
      breakdown_amount_only_def dict_get_def Let_def)

text \<open>
  Claim C5, amended: for every transaction, risk breakdown and history, the explain
  operation branches solely on whether the risk score is below the engine's own
  \<^verbatim>\<open>decision_threshold\<close>, the constant 60.0 set by the constructor; the policy store is
  not consulted. A score below 60 takes the approval path; a score of 60 or more takes the
  single decline path (customer suggestions and bank counterfactuals, or the exception of
  the bank view), with no dispatch on the 4-way action.
\<close>

theorem generate_counterfactuals_branch:
  "decision_threshold counterfactual_engine = 60
   \<and> (rs < 60 \<longrightarrow>
        generate_counterfactuals counterfactual_engine tx rs rb h =
          Inr (generate_approval_explanations_customer tx rb rs,
               generate_approval_explanations_bank tx rb rs))
   \<and> (60 \<le> rs \<longrightarrow>
        generate_counterfactuals counterfactual_engine tx rs rb h =
          (case generate_decline_counterfactuals_bank tx rb h rs of
             Inl e \<Rightarrow> Inl e
           | Inr bank \<Rightarrow> Inr (generate_decline_counterfactuals_customer tx rb h rs, bank)))"
  by (simp add: generate_counterfactuals_def counterfactual_engine_def
      CounterfactualEngine_init_def Let_def)

theorem generate_counterfactuals_branch_witness:
  "(59::real) < 60 \<and> (60::real) \<le> 60
   \<and> generate_counterfactuals counterfactual_engine transaction_example 59 breakdown_quiet [] =
       Inr (generate_approval_explanations_customer transaction_example breakdown_quiet 59,
            generate_approval_explanations_bank transaction_example breakdown_quiet 59)
   \<and> generate_counterfactuals counterfactual_engine transaction_example 60 breakdown_quiet [] =
       Inr ([contact_support], [])"
  using generate_counterfactuals_branch [of 59 transaction_example breakdown_quiet "[]"]
    generate_counterfactuals_branch [of 60 transaction_example breakdown_quiet "[]"]
  by (simp add: generate_decline_counterfactuals_bank_def
      generate_decline_counterfactuals_customer_def contact_support_def suggestion_def
      breakdown_quiet_def dict_get_def Let_def)

text \<open>
  Claim C6: on the decline branch the customer explanation is, for every risk breakdown,
  one templated suggestion per category whose risk exceeds its mention threshold (amount
  above 5, location above 10, behavior above 8), in the fixed order amount, location,
  behavior and cut to two items, and exactly the contact-support entry when no category
  qualifies; every entry is number-free; for the breakdown
  \<^verbatim>\<open>{amount: 10, location: 0, behavior: 0, merchant: 0, velocity: 0}\<close> it is the single
  amount entry titled "Reduce Transaction Amount".
\<close>

theorem customer_explanation_refines_spec:
  "generate_decline_counterfactuals_customer tx rb h rs = customer_explanation_spec rb
   \<and> list_all entry_number_free (generate_decline_counterfactuals_customer tx rb h rs)
   \<and> generate_decline_counterfactuals_customer tx rb h rs \<noteq> []
   \<and> length (generate_decline_counterfactuals_customer tx rb h rs) \<le> 2
   \<and> ((dict_get rb ''amount'' 0 \<le> 5 \<and> dict_get rb ''location'' 0 \<le> 10
         \<and> dict_get rb ''behavior'' 0 \<le> 8)
        \<longrightarrow> generate_decline_counterfactuals_customer tx rb h rs = [contact_support])
   \<and> generate_decline_counterfactuals_customer tx breakdown_amount_only h rs =
       [[(''type'', Text [Lit ''amount'']),
         (''title'', Text [Lit ''Reduce Transaction Amount'']),
         (''suggestion'',
            Text [Lit ''Try a smaller amount or split into multiple transactions''])]]"
proof -
  have eq: "generate_decline_counterfactuals_customer tx rb h rs = customer_explanation_spec rb"
    by (rule customer_is_spec)
  have fallback: "generate_decline_counterfactuals_customer tx rb h rs = [contact_support]"
    if "dict_get rb ''amount'' 0 \<le> 5 \<and> dict_get rb ''location'' 0 \<le> 10
        \<and> dict_get rb ''behavior'' 0 \<le> 8"
    using that
    by (simp add: generate_decline_counterfactuals_customer_def contact_support_def
        suggestion_def Let_def)
  have example: "generate_decline_counterfactuals_customer tx breakdown_amount_only h rs =
       [[(''type'', Text [Lit ''amount'']),
         (''title'', Text [Lit ''Reduce Transaction Amount'']),
         (''suggestion'',
            Text [Lit ''Try a smaller amount or split into multiple transactions''])]]"
    by (simp add: generate_decline_counterfactuals_customer_def breakdown_amount_only_def
        dict_get_def Let_def)
  have free: "list_all entry_number_free (generate_decline_counterfactuals_customer tx rb h rs)"
    using customer_spec_number_free [of rb] by (simp add: eq)
  have len: "generate_decline_counterfactuals_customer tx rb h rs \<noteq> []
      \<and> length (generate_decline_counterfactuals_customer tx rb h rs) \<le> 2"
    using customer_spec_length [of rb] by (simp add: eq)
  show ?thesis
    using eq free len fallback example by blast
qed

theorem customer_explanation_refines_spec_witness:
  "generate_decline_counterfactuals_customer transaction_example breakdown_all_high [] 70 =
     [suggestion ''amount'' ''Reduce Transaction Amount''
        ''Try a smaller amount or split into multiple transactions'',
      suggestion ''location'' ''Check Your Connection''
        ''Turn off VPN or proxy if enabled and retry'']
   \<and> customer_explanation_spec breakdown_all_high =
       generate_decline_counterfactuals_customer transaction_example breakdown_all_high [] 70
   \<and> dict_get breakdown_quiet ''amount'' 0 \<le> 5 \<and> dict_get breakdown_quiet ''location'' 0 \<le> 10
   \<and> dict_get breakdown_quiet ''behavior'' 0 \<le> 8
   \<and> generate_decline_counterfactuals_customer transaction_example breakdown_quiet [] 70 =
       [contact_support]"
  using customer_explanation_refines_spec [of transaction_example breakdown_all_high "[]" 70]
    customer_explanation_refines_spec [of transaction_example breakdown_quiet "[]" 70]
  by (simp add: generate_decline_counterfactuals_customer_def suggestion_def
      breakdown_all_high_def breakdown_quiet_def dict_get_def Let_def)

text \<open>
  Claim C7, as stated, fails in its second half: with a score of 70 and a breakdown in which
  no category exceeds a bank threshold, the decline path returns the contact-support entry
  for the customer and an empty bank explanation, which holds no category-risk value at all.
\<close>

theorem bank_explanation_may_be_empty:
  "generate_counterfactuals counterfactual_engine transaction_example 70 breakdown_quiet [] =
     Inr ([[(''type'', Text [Lit ''contact'']),
            (''title'', Text [Lit ''Contact Support'']),
            (''suggestion'', Text [Lit ''Please contact our support team for assistance''])]],
          [])
   \<and> generate_decline_counterfactuals_bank transaction_example breakdown_quiet [] 70 = Inr []
   \<and> concat (map entry_numbers []) = []"
  by (simp add: generate_counterfactuals_def counterfactual_engine_def
      CounterfactualEngine_init_def generate_decline_counterfactuals_bank_def
      generate_decline_counterfactuals_customer_def breakdown_quiet_def dict_get_def Let_def)

text \<open>
  Claim C7, amended: for every decline-path input, every field of every entry of the
  customer explanation is literal text without a digit, so it holds no value taken from the
  component risks. Whenever the bank view returns, each entry of the bank explanation
  carries the numeric risk of its own category, and the bank explanation is empty exactly
  when no category exceeds its bank threshold (amount, location, behavior, merchant above
  5, velocity above 3).
\<close>

theorem explanation_audiences:
  "list_all entry_number_free (generate_decline_counterfactuals_customer tx rb h rs)
   \<and> (generate_decline_counterfactuals_bank tx rb h rs = Inr es \<longrightarrow>
        list_all (carries_own_risk rb) es
        \<and> (es = [] \<longleftrightarrow>
             (dict_get rb ''amount'' 0 \<le> 5 \<and> dict_get rb ''location'' 0 \<le> 5
              \<and> dict_get rb ''behavior'' 0 \<le> 5 \<and> dict_get rb ''merchant'' 0 \<le> 5
              \<and> dict_get rb ''velocity'' 0 \<le> 3)))"
proof -
  have "list_all entry_number_free (generate_decline_counterfactuals_customer tx rb h rs)"
    using customer_spec_number_free [of rb] by (simp add: customer_is_spec)
  then show ?thesis
    using bank_carries [of tx rb h rs es] bank_empty_iff [of tx rb h rs es] by blast
qed

theorem explanation_audiences_witness:
  "generate_decline_counterfactuals_bank transaction_example breakdown_all_high [] 70 =
     Inr bank_example
   \<and> list_all (carries_own_risk breakdown_all_high) bank_example
   \<and> bank_example \<noteq> []
   \<and> list_all entry_number_free
        (generate_decline_counterfactuals_customer transaction_example breakdown_all_high [] 70)"
  using explanation_audiences [of transaction_example breakdown_all_high "[]" 70 bank_example]
    bank_all_high
  by (simp add: bank_example_def)

subsection \<open>Churn estimate\<close>




end
